theory Spec2Isabelle
  imports Main
begin

section \<open>JavaScript values held by the store\<close>

text \<open>
  The store of \<^verbatim>\<open>react-frontend/src/context/AppContext.js\<close> holds plain JavaScript
  values: the seed data of \<^verbatim>\<open>initialState\<close> and whatever \<^verbatim>\<open>response.json()\<close>
  returned. An object is a list of properties in insertion order. Numbers are modelled
  as integers: every number of the seed data and every id is one, and no operation of
  the data layer does arithmetic on a payload.
\<close>

datatype jval =
    JUndef
  | JNull
  | JBool bool
  | JNum int
  | JStr string
  | JArr "jval list"
  | JObj "(string \<times> jval) list"

type_synonym obj = "(string \<times> jval) list"

text \<open>Property read \<^verbatim>\<open>o.k\<close>: a missing property reads as \<^verbatim>\<open>undefined\<close>.\<close>

definition get_prop :: "obj \<Rightarrow> string \<Rightarrow> jval" where
  "get_prop ob k = (case map_of ob k of None \<Rightarrow> JUndef | Some v \<Rightarrow> v)"

text \<open>
  Strict equality \<^verbatim>\<open>===\<close>. Primitive values are compared by value. Arrays and objects
  are compared by reference in JavaScript; two of them met by the reducer come from
  separate \<^verbatim>\<open>JSON.parse\<close> results or literals, so they are never identical.
\<close>

fun strict_eq :: "jval \<Rightarrow> jval \<Rightarrow> bool" where
  "strict_eq JUndef JUndef = True"
| "strict_eq JNull JNull = True"
| "strict_eq (JBool a) (JBool b) = (a = b)"
| "strict_eq (JNum a) (JNum b) = (a = b)"
| "strict_eq (JStr a) (JStr b) = (a = b)"
| "strict_eq _ _ = False"

text \<open>
  Object spread \<^verbatim>\<open>{ ...a, ...b }\<close>: the properties of \<^verbatim>\<open>b\<close> are assigned over
  those of \<^verbatim>\<open>a\<close>, one after the other; a property \<^verbatim>\<open>a\<close> already has keeps its
  place, a new one is appended.
\<close>

fun set_prop :: "string \<Rightarrow> jval \<Rightarrow> obj \<Rightarrow> obj" where
  "set_prop k v [] = [(k, v)]"
| "set_prop k v ((k', v') # ps) =
     (if k' = k then (k, v) # ps else (k', v') # set_prop k v ps)"

fun spread :: "obj \<Rightarrow> obj \<Rightarrow> obj" where
  "spread a [] = a"
| "spread a ((k, v) # ps) = spread (set_prop k v a) ps"

section \<open>The store and its reducer\<close>

record state =
  user :: obj
  business :: obj
  dashboard :: obj
  inventory :: "obj list"
  customers :: "obj list"
  loading :: bool
  error :: "string option"
  apiConnected :: bool
  apiBaseUrl :: "string option"

text \<open>
  \<^verbatim>\<open>window.location.hostname === 'localhost' ? 'http://localhost:8000' : null\<close>,
  used by \<^verbatim>\<open>initialState\<close> and again by \<^verbatim>\<open>apiCall\<close>. The host name is the one
  input of the environment.
\<close>

definition currentApiBaseUrl :: "string \<Rightarrow> string option" where
  "currentApiBaseUrl hostname =
     (if hostname = ''localhost'' then Some ''http://localhost:8000'' else None)"

definition initialState :: "string \<Rightarrow> state" where
  "initialState hostname = \<lparr>
     user = [(''name'', JStr ''Rajesh Kumar''), (''business'', JStr ''Kumar Electronics''),
             (''role'', JStr ''Owner''), (''avatar'', JNull)],
     business = [(''name'', JStr ''Kumar Electronics''), (''type'', JStr ''retail''),
                 (''currency'', JStr ''INR''), (''language'', JStr ''hi''),
                 (''gstEnabled'', JBool True)],
     dashboard = [(''totalSales'', JNum 150000), (''totalCustomers'', JNum 1250),
                  (''totalProducts'', JNum 450), (''monthlyRevenue'', JNum 2500000),
                  (''salesData'', JArr [
                     JObj [(''month'', JStr ''Jan''), (''sales'', JNum 180000)],
                     JObj [(''month'', JStr ''Feb''), (''sales'', JNum 220000)],
                     JObj [(''month'', JStr ''Mar''), (''sales'', JNum 190000)],
                     JObj [(''month'', JStr ''Apr''), (''sales'', JNum 250000)],
                     JObj [(''month'', JStr ''May''), (''sales'', JNum 280000)],
                     JObj [(''month'', JStr ''Jun''), (''sales'', JNum 150000)]]),
                  (''recentTransactions'', JArr [
                     JObj [(''id'', JNum 1), (''customer'', JStr ''Priya Sharma''),
                           (''amount'', JNum 15500), (''status'', JStr ''completed''),
                           (''date'', JStr ''2024-01-15'')],
                     JObj [(''id'', JNum 2), (''customer'', JStr ''Amit Patel''),
                           (''amount'', JNum 8900), (''status'', JStr ''pending''),
                           (''date'', JStr ''2024-01-14'')],
                     JObj [(''id'', JNum 3), (''customer'', JStr ''Sunita Devi''),
                           (''amount'', JNum 12000), (''status'', JStr ''completed''),
                           (''date'', JStr ''2024-01-14'')]])],
     inventory = [
       [(''id'', JNum 1), (''name'', JStr ''iPhone 15 Pro''), (''stock'', JNum 25),
        (''price'', JNum 129900), (''category'', JStr ''Electronics'')],
       [(''id'', JNum 2), (''name'', JStr ''Samsung Galaxy S24''), (''stock'', JNum 30),
        (''price'', JNum 89900), (''category'', JStr ''Electronics'')],
       [(''id'', JNum 3), (''name'', JStr ''MacBook Air M3''), (''stock'', JNum 10),
        (''price'', JNum 114900), (''category'', JStr ''Computers'')]],
     customers = [
       [(''id'', JNum 1), (''name'', JStr ''Priya Sharma''), (''phone'', JStr ''+91 98765 43210''),
        (''email'', JStr ''priya@email.com''), (''totalOrders'', JNum 15)],
       [(''id'', JNum 2), (''name'', JStr ''Amit Patel''), (''phone'', JStr ''+91 87654 32109''),
        (''email'', JStr ''amit@email.com''), (''totalOrders'', JNum 8)],
       [(''id'', JNum 3), (''name'', JStr ''Sunita Devi''), (''phone'', JStr ''+91 76543 21098''),
        (''email'', JStr ''sunita@email.com''), (''totalOrders'', JNum 12)]],
     loading = False,
     error = None,
     apiConnected = False,
     apiBaseUrl = currentApiBaseUrl hostname \<rparr>"

text \<open>
  The actions, one constructor for each entry of \<^verbatim>\<open>ActionTypes\<close> with its payload.
  Collections are arrays of objects and single entities are objects, as in the seed
  data and the REST surface. \<open>OTHER\<close> stands for any action type the reducer does not
  know (its \<^verbatim>\<open>default\<close> branch).
\<close>

datatype action =
    SET_LOADING bool
  | SET_ERROR "string option"
  | SET_API_CONNECTION bool
  | UPDATE_DASHBOARD obj
  | UPDATE_INVENTORY "obj list"
  | ADD_INVENTORY_ITEM obj
  | UPDATE_INVENTORY_ITEM obj
  | DELETE_INVENTORY_ITEM jval
  | UPDATE_CUSTOMERS "obj list"
  | ADD_CUSTOMER obj
  | UPDATE_CUSTOMER obj
  | DELETE_CUSTOMER jval
  | UPDATE_BUSINESS_PROFILE obj
  | OTHER string

fun appReducer :: "state \<Rightarrow> action \<Rightarrow> state" where
  "appReducer s (SET_LOADING p) = s\<lparr>loading := p\<rparr>"
| "appReducer s (SET_ERROR p) = s\<lparr>error := p, loading := False\<rparr>"
| "appReducer s (SET_API_CONNECTION p) = s\<lparr>apiConnected := p\<rparr>"
| "appReducer s (UPDATE_DASHBOARD p) = s\<lparr>dashboard := spread (dashboard s) p\<rparr>"
| "appReducer s (UPDATE_INVENTORY p) = s\<lparr>inventory := p\<rparr>"
| "appReducer s (ADD_INVENTORY_ITEM p) = s\<lparr>inventory := inventory s @ [p]\<rparr>"
| "appReducer s (UPDATE_INVENTORY_ITEM p) =
     s\<lparr>inventory :=
         map (\<lambda>item. if strict_eq (get_prop item ''id'') (get_prop p ''id'') then spread item p else item)
           (inventory s)\<rparr>"
| "appReducer s (DELETE_INVENTORY_ITEM p) =
     s\<lparr>inventory := filter (\<lambda>item. \<not> strict_eq (get_prop item ''id'') p) (inventory s)\<rparr>"
| "appReducer s (UPDATE_CUSTOMERS p) = s\<lparr>customers := p\<rparr>"
| "appReducer s (ADD_CUSTOMER p) = s\<lparr>customers := customers s @ [p]\<rparr>"
| "appReducer s (UPDATE_CUSTOMER p) =
     s\<lparr>customers :=
         map (\<lambda>customer.
                if strict_eq (get_prop customer ''id'') (get_prop p ''id'') then spread customer p
                else customer)
           (customers s)\<rparr>"
| "appReducer s (DELETE_CUSTOMER p) =
     s\<lparr>customers := filter (\<lambda>customer. \<not> strict_eq (get_prop customer ''id'') p) (customers s)\<rparr>"
| "appReducer s (UPDATE_BUSINESS_PROFILE p) = s\<lparr>business := spread (business s) p\<rparr>"
| "appReducer s (OTHER t) = s"

section \<open>The inventory page\<close>

text \<open>
  \<^verbatim>\<open>getStockStatus\<close> of \<^verbatim>\<open>react-frontend/src/pages/Inventory.js\<close>. Its arguments are
  the \<^verbatim>\<open>stock\<close> and \<^verbatim>\<open>minStock\<close> of a product, both whole numbers.
\<close>

definition getStockStatus :: "int \<Rightarrow> int \<Rightarrow> string" where
  "getStockStatus stock minStock =
     (if stock \<le> minStock then ''low''
      else if stock \<le> minStock * 2 then ''medium''
      else ''high'')"



section \<open>The provider: gateway and action creators\<close>

text \<open>
  What the provider changes: the store, through \<^verbatim>\<open>dispatch\<close>, and the toasts shown to
  the user, through \<^verbatim>\<open>toast.error\<close> and \<^verbatim>\<open>toast.success\<close>. Console output is not
  modelled: neither the store nor the user sees it.
\<close>

datatype toast = ToastError string | ToastSuccess string

record world =
  st :: state
  toasts :: "toast list"

definition dispatch :: "action \<Rightarrow> world \<Rightarrow> world" where
  "dispatch a w = w\<lparr>st := appReducer (st w) a\<rparr>"

definition toast_error :: "string \<Rightarrow> world \<Rightarrow> world" where
  "toast_error msg w = w\<lparr>toasts := toasts w @ [ToastError msg]\<rparr>"

definition toast_success :: "string \<Rightarrow> world \<Rightarrow> world" where
  "toast_success msg w = w\<lparr>toasts := toasts w @ [ToastSuccess msg]\<rparr>"

text \<open>
  What the network does with one request is an input of the model: \<^verbatim>\<open>fetch\<close> rejects
  (\<open>NetworkFailure\<close>), or it resolves to a response with a status and a body, whose
  \<^verbatim>\<open>response.json()\<close> is the parsed body or rejects (\<open>None\<close>).

  A parsed body is a payload of the shape of its endpoint, an array of objects for a
  collection and an object for an entity, or one of the falsy values of JSON:
  \<^verbatim>\<open>null\<close>, \<^verbatim>\<open>false\<close>, \<^verbatim>\<open>0\<close> and the empty string. Arrays and objects are truthy in
  JavaScript, the empty ones too, so a test \<^verbatim>\<open>if (data)\<close> on what \<^verbatim>\<open>apiCall\<close> returned
  separates the two constructors of \<open>body\<close>. The \<^verbatim>\<open>null\<close> that \<^verbatim>\<open>apiCall\<close> returns
  of its own is the same value as a parsed \<^verbatim>\<open>null\<close>. A truthy body of another shape
  (a number, a string, an object where an array is due) is not a value of this type:
  the collections of the store are arrays of objects.
\<close>

datatype falsy = FalsyNull | FalsyFalse | FalsyZero | FalsyEmpty

datatype 'a body = Falsy falsy | Payload 'a

datatype 'a fetch_result = NetworkFailure | Response nat "'a body option"

text \<open>\<^verbatim>\<open>response.ok\<close>: the status is in the range 200 to 299.\<close>

definition response_ok :: "nat \<Rightarrow> bool" where
  "response_ok status = (200 \<le> status \<and> status \<le> 299)"

text \<open>
  The request itself: the endpoint, which three callers build from a path and an id
  (\<^verbatim>\<open>`/api/inventory/${id}`\<close>), and the \<^verbatim>\<open>options\<close>, a method with an optional body.
  They decide nothing in \<^verbatim>\<open>apiCall\<close> but what is sent.
\<close>

datatype endpoint = Path string | PathId string jval

datatype options = GET | POST obj | PUT obj | DELETE

text \<open>
  \<^verbatim>\<open>apiCall\<close> returns \<^verbatim>\<open>null\<close> at once when there is no base URL. Otherwise it awaits
  \<^verbatim>\<open>fetch\<close>; a rejected fetch and a status that is not ok end in its \<^verbatim>\<open>catch\<close>, which
  dispatches \<^verbatim>\<open>SET_API_CONNECTION false\<close> and returns \<^verbatim>\<open>null\<close>. With an ok status it
  dispatches \<^verbatim>\<open>SET_API_CONNECTION true\<close> and then awaits \<^verbatim>\<open>response.json()\<close>, whose
  rejection ends in the same \<^verbatim>\<open>catch\<close> and whose value, truthy or falsy, it returns.
  It never throws.
\<close>

definition apiCall ::
  "string \<Rightarrow> 'a fetch_result \<Rightarrow> endpoint \<Rightarrow> options \<Rightarrow> world \<Rightarrow> world \<times> 'a body" where
  "apiCall hostname res ep opts w =
     (case currentApiBaseUrl hostname of
        None \<Rightarrow> (w, Falsy FalsyNull)
      | Some base \<Rightarrow>
          (case res of
             NetworkFailure \<Rightarrow> (dispatch (SET_API_CONNECTION False) w, Falsy FalsyNull)
           | Response status parsed \<Rightarrow>
               if \<not> response_ok status
               then (dispatch (SET_API_CONNECTION False) w, Falsy FalsyNull)
               else
                 let w1 = dispatch (SET_API_CONNECTION True) w in
                 (case parsed of
                    None \<Rightarrow> (dispatch (SET_API_CONNECTION False) w1, Falsy FalsyNull)
                  | Some v \<Rightarrow> (w1, v))))"

definition setLoading :: "bool \<Rightarrow> world \<Rightarrow> world" where
  "setLoading l w = dispatch (SET_LOADING l) w"

text \<open>\<^verbatim>\<open>if (error)\<close>: \<^verbatim>\<open>null\<close> and the empty string are falsy.\<close>

definition setError :: "string option \<Rightarrow> world \<Rightarrow> world" where
  "setError e w =
     (let w1 = dispatch (SET_ERROR e) w in
      case e of
        None \<Rightarrow> w1
      | Some msg \<Rightarrow> if msg = [] then w1 else toast_error msg w1)"

definition setApiConnection :: "bool \<Rightarrow> world \<Rightarrow> world" where
  "setApiConnection connected w = dispatch (SET_API_CONNECTION connected) w"

subsection \<open>Reads\<close>

text \<open>
  A fetch suspends once, at \<^verbatim>\<open>await apiCall(...)\<close>. Everything before it
  (\<^verbatim>\<open>setLoading(true)\<close>) runs when the fetch is issued, everything after it when the
  gateway has settled; other operations may run in between. The fetch as a whole is
  its two halves, one after the other. After the await the fetch tests \<^verbatim>\<open>if (data)\<close>
  and dispatches a truthy \<^verbatim>\<open>data\<close> only. The \<^verbatim>\<open>catch\<close> of a fetch is never entered,
  since \<^verbatim>\<open>apiCall\<close> and \<^verbatim>\<open>dispatch\<close> do not throw; its \<^verbatim>\<open>finally\<close> always runs.
\<close>

definition fetchDashboardData_issue :: "world \<Rightarrow> world" where
  "fetchDashboardData_issue w = setLoading True w"

definition fetchDashboardData_settle :: "string \<Rightarrow> obj fetch_result \<Rightarrow> world \<Rightarrow> world" where
  "fetchDashboardData_settle hostname res w =
     (let (w1, data) = apiCall hostname res (Path ''/api/dashboard'') GET w;
          w2 = (case data of Payload d \<Rightarrow> dispatch (UPDATE_DASHBOARD d) w1 | Falsy f \<Rightarrow> w1)
      in setLoading False w2)"

definition fetchDashboardData :: "string \<Rightarrow> obj fetch_result \<Rightarrow> world \<Rightarrow> world" where
  "fetchDashboardData hostname res w =
     fetchDashboardData_settle hostname res (fetchDashboardData_issue w)"

definition fetchInventory_issue :: "world \<Rightarrow> world" where
  "fetchInventory_issue w = setLoading True w"

definition fetchInventory_settle :: "string \<Rightarrow> obj list fetch_result \<Rightarrow> world \<Rightarrow> world" where
  "fetchInventory_settle hostname res w =
     (let (w1, data) = apiCall hostname res (Path ''/api/inventory'') GET w;
          w2 = (case data of Payload d \<Rightarrow> dispatch (UPDATE_INVENTORY d) w1 | Falsy f \<Rightarrow> w1)
      in setLoading False w2)"

definition fetchInventory :: "string \<Rightarrow> obj list fetch_result \<Rightarrow> world \<Rightarrow> world" where
  "fetchInventory hostname res w = fetchInventory_settle hostname res (fetchInventory_issue w)"

definition fetchCustomers_issue :: "world \<Rightarrow> world" where
  "fetchCustomers_issue w = setLoading True w"

definition fetchCustomers_settle :: "string \<Rightarrow> obj list fetch_result \<Rightarrow> world \<Rightarrow> world" where
  "fetchCustomers_settle hostname res w =
     (let (w1, data) = apiCall hostname res (Path ''/api/customers'') GET w;
          w2 = (case data of Payload d \<Rightarrow> dispatch (UPDATE_CUSTOMERS d) w1 | Falsy f \<Rightarrow> w1)
      in setLoading False w2)"

definition fetchCustomers :: "string \<Rightarrow> obj list fetch_result \<Rightarrow> world \<Rightarrow> world" where
  "fetchCustomers hostname res w = fetchCustomers_settle hostname res (fetchCustomers_issue w)"

text \<open>
  \<^verbatim>\<open>loadInitialData\<close>, run once when the provider mounts. \<^verbatim>\<open>state.apiBaseUrl\<close> is
  truthy when it is a non-empty string. It is read from the state of the mounting
  render, which is the state of the store at that moment; the reducer never changes it.
\<close>

definition loadInitialData :: "string \<Rightarrow> obj fetch_result \<Rightarrow> world \<Rightarrow> world" where
  "loadInitialData hostname res w =
     (case apiBaseUrl (st w) of
        None \<Rightarrow> w
      | Some url \<Rightarrow>
          if url = [] then w
          else
            let (w1, data) = apiCall hostname res (Path ''/api/dashboard'') GET w in
            (case data of
               Payload d \<Rightarrow> dispatch (SET_API_CONNECTION True) (dispatch (UPDATE_DASHBOARD d) w1)
             | Falsy f \<Rightarrow> w1))"

subsection \<open>Writes\<close>

text \<open>
  The action creators are built anew by every render of the provider, and they close
  over the \<^verbatim>\<open>state\<close> of that render. Every write reads \<^verbatim>\<open>state.apiConnected\<close> of that
  state first, not the flag the store has when the write is called: the two differ
  when a component calls a write through an \<^verbatim>\<open>actions\<close> object of an earlier render.
  The first argument of a write is the state its \<^verbatim>\<open>actions\<close> object closed over; the
  world is the store at the moment of the call, on which \<^verbatim>\<open>dispatch\<close> works.

  When the flag it reads is false the write stops with an error toast. Otherwise it
  awaits the gateway, and an add or an update dispatches what the gateway returned when
  that is truthy. The \<^verbatim>\<open>catch\<close> of a write, which would call \<^verbatim>\<open>actions.setError\<close>, is never
  entered, since \<^verbatim>\<open>apiCall\<close> returns \<^verbatim>\<open>null\<close> where it could have thrown. The two
  deletes do not look at what \<^verbatim>\<open>apiCall\<close> returned.
\<close>

definition addInventoryItem ::
  "state \<Rightarrow> string \<Rightarrow> obj fetch_result \<Rightarrow> obj \<Rightarrow> world \<Rightarrow> world" where
  "addInventoryItem state hostname res item w =
     (if \<not> apiConnected state then toast_error ''Feature not available in demo mode'' w
      else
        let (w1, newItem) = apiCall hostname res (Path ''/api/inventory'') (POST item) w in
        (case newItem of
           Payload n \<Rightarrow>
             toast_success ''Inventory item added successfully''
               (dispatch (ADD_INVENTORY_ITEM n) w1)
         | Falsy f \<Rightarrow> w1))"


definition deleteInventoryItem ::
  "state \<Rightarrow> string \<Rightarrow> jval fetch_result \<Rightarrow> jval \<Rightarrow> world \<Rightarrow> world" where
  "deleteInventoryItem state hostname res ident w =
     (if \<not> apiConnected state then toast_error ''Feature not available in demo mode'' w
      else
        let (w1, ignored) = apiCall hostname res (PathId ''/api/inventory/'' ident) DELETE w in
        toast_success ''Inventory item deleted successfully''
          (dispatch (DELETE_INVENTORY_ITEM ident) w1))"





text \<open>
  The gateway is unavailable for a request when there is no base URL, the fetch is
  rejected, the status is not ok, or the body does not parse: the cases in which
  \<^verbatim>\<open>apiCall\<close> returns the \<^verbatim>\<open>null\<close> of its early return or of its \<^verbatim>\<open>catch\<close>.
\<close>

definition gateway_unavailable :: "string \<Rightarrow> 'a fetch_result \<Rightarrow> bool" where
  "gateway_unavailable hostname res =
     (currentApiBaseUrl hostname = None \<or>
      (case res of
         NetworkFailure \<Rightarrow> True
       | Response status parsed \<Rightarrow> \<not> response_ok status \<or> parsed = None))"

text \<open>The provider as it is mounted: the seed data and no toast.\<close>

definition initialWorld :: "string \<Rightarrow> world" where
  "initialWorld hostname = \<lparr>st = initialState hostname, toasts = []\<rparr>"

section \<open>Properties of object spread\<close>

lemma map_of_set_prop: "map_of (set_prop k v a) = (map_of a)(k \<mapsto> v)"
  by (induction a) (auto simp: fun_eq_iff)

lemma map_of_spread: "map_of (spread a b) = map_of a ++ map_of (rev b)"
proof (induction b arbitrary: a)
  case Nil
  show ?case by simp
next
  case (Cons kv ps)
  obtain k v where kv: "kv = (k, v)" by (cases kv)
  show ?case
    unfolding kv
    by (simp add: Cons.IH map_of_set_prop fun_eq_iff map_add_def split: option.splits)
qed

text \<open>
  A property of \<^verbatim>\<open>{ ...a, ...b }\<close> is read from \<^verbatim>\<open>b\<close> when \<^verbatim>\<open>b\<close> has it (its last
  occurrence, should the list name it twice) and from \<^verbatim>\<open>a\<close> otherwise.
\<close>

lemma get_prop_spread:
  "get_prop (spread a b) k =
     (if k \<in> fst ` set b then get_prop (rev b) k else get_prop a k)"
proof (cases "map_of (rev b) k")
  case None
  then have "k \<notin> fst ` set b" by (simp add: map_of_eq_None_iff)
  with None show ?thesis by (simp add: get_prop_def map_of_spread map_add_def)
next
  case (Some v)
  then have "k \<in> fst ` set b" using map_of_eq_None_iff [of "rev b" k] by auto
  with Some show ?thesis by (simp add: get_prop_def map_of_spread map_add_def)
qed

section \<open>The gateway and the connectivity flag\<close>

lemma appReducer_apiBaseUrl: "apiBaseUrl (appReducer s a) = apiBaseUrl s"
  by (cases a) simp_all



lemma apiCall_unavailable:
  "gateway_unavailable hostname res \<Longrightarrow>
   apiCall hostname res ep opts w =
     (w\<lparr>st := (st w)\<lparr>apiConnected :=
            (if currentApiBaseUrl hostname = None then apiConnected (st w) else False)\<rparr>\<rparr>,
      Falsy FalsyNull)"
  by (auto simp: apiCall_def gateway_unavailable_def dispatch_def Let_def
           split: option.splits fetch_result.splits)

text \<open>A call that succeeds returns the parsed body as it is, falsy or not.\<close>

lemma apiCall_available:
  "currentApiBaseUrl hostname \<noteq> None \<Longrightarrow> response_ok status \<Longrightarrow>
   apiCall hostname (Response status (Some v)) ep opts w =
     (w\<lparr>st := (st w)\<lparr>apiConnected := True\<rparr>\<rparr>, v)"
  by (auto simp: apiCall_def dispatch_def Let_def split: option.splits)




section \<open>Writes while the flag is false\<close>




section \<open>Reads\<close>

text \<open>
  C2, as the code has it. A fetch of the inventory, of the customers or of the dashboard
  whose gateway call returns \<^verbatim>\<open>null\<close> leaves every entity of the store as it was and
  shows no toast; it ends with \<^verbatim>\<open>loading\<close> false. With a base URL it sets the
  connectivity flag to false; without one the flag keeps the value it had.
\<close>

theorem fetch_unavailable_keeps_store:
  assumes "gateway_unavailable hostname res" and "gateway_unavailable hostname resd"
  shows "fetchInventory hostname res w =
           w\<lparr>st := (st w)\<lparr>loading := False, apiConnected :=
                 (if currentApiBaseUrl hostname = None then apiConnected (st w) else False)\<rparr>\<rparr> \<and>
         fetchCustomers hostname res w =
           w\<lparr>st := (st w)\<lparr>loading := False, apiConnected :=
                 (if currentApiBaseUrl hostname = None then apiConnected (st w) else False)\<rparr>\<rparr> \<and>
         fetchDashboardData hostname resd w =
           w\<lparr>st := (st w)\<lparr>loading := False, apiConnected :=
                 (if currentApiBaseUrl hostname = None then apiConnected (st w) else False)\<rparr>\<rparr>"
  using assms
  by (simp add: fetchInventory_def fetchInventory_settle_def fetchInventory_issue_def
        fetchCustomers_def fetchCustomers_settle_def fetchCustomers_issue_def
        fetchDashboardData_def fetchDashboardData_settle_def fetchDashboardData_issue_def
        apiCall_unavailable setLoading_def dispatch_def)

text \<open>
  On \<^verbatim>\<open>localhost\<close>, with the flag set: a fetch answered with status 503, and one whose
  request is rejected, give back the freshly mounted provider, flag false again.
\<close>

theorem fetch_unavailable_keeps_store_witness:
  "gateway_unavailable ''localhost'' (Response 503 (None :: obj list body option)) \<and>
   gateway_unavailable ''localhost'' (NetworkFailure :: obj fetch_result) \<and>
   fetchInventory ''localhost'' (Response 503 None)
       (setApiConnection True (initialWorld ''localhost''))
     = initialWorld ''localhost'' \<and>
   fetchDashboardData ''localhost'' NetworkFailure
       (setApiConnection True (initialWorld ''localhost''))
     = initialWorld ''localhost''"
proof -
  have a: "gateway_unavailable ''localhost'' (Response 503 (None :: obj list body option))"
    by (simp add: gateway_unavailable_def)
  have b: "gateway_unavailable ''localhost'' (NetworkFailure :: obj fetch_result)"
    by (simp add: gateway_unavailable_def)
  from a b
    fetch_unavailable_keeps_store [OF a b, of "setApiConnection True (initialWorld ''localhost'')"]
  show ?thesis
    by (simp add: initialWorld_def initialState_def setApiConnection_def dispatch_def
          currentApiBaseUrl_def)
qed

text \<open>
  C2 as the specification words it does not hold: on a host without a base URL the
  gateway returns \<^verbatim>\<open>null\<close> without touching the flag, so a flag that was true is still
  true after the fetch.
\<close>

theorem fetch_unavailable_flag_stays_true:
  "gateway_unavailable ''shop.example.com'' (NetworkFailure :: obj list fetch_result) \<and>
   apiConnected (st (fetchInventory ''shop.example.com'' NetworkFailure
      (setApiConnection True (initialWorld ''shop.example.com''))))"
  by (simp add: gateway_unavailable_def currentApiBaseUrl_def fetchInventory_def
        fetchInventory_settle_def fetchInventory_issue_def apiCall_def setLoading_def
        setApiConnection_def dispatch_def initialWorld_def)

text \<open>
  What a fetch does with a response of ok status whose body parses, by the body: a
  payload is dispatched, a falsy body is not.
\<close>

lemma settle_available:
  assumes "currentApiBaseUrl hostname \<noteq> None" and "response_ok status"
  shows "fetchInventory_settle hostname (Response status (Some (Payload items))) w =
           w\<lparr>st := (st w)\<lparr>inventory := items, loading := False, apiConnected := True\<rparr>\<rparr>"
    and "fetchCustomers_settle hostname (Response status (Some (Payload items))) w =
           w\<lparr>st := (st w)\<lparr>customers := items, loading := False, apiConnected := True\<rparr>\<rparr>"
    and "fetchDashboardData_settle hostname (Response status (Some (Payload d))) w =
           w\<lparr>st := (st w)\<lparr>dashboard := spread (dashboard (st w)) d, loading := False,
                 apiConnected := True\<rparr>\<rparr>"
    and "fetchInventory_settle hostname (Response status (Some (Falsy f))) w =
           w\<lparr>st := (st w)\<lparr>loading := False, apiConnected := True\<rparr>\<rparr>"
    and "fetchCustomers_settle hostname (Response status (Some (Falsy f))) w =
           w\<lparr>st := (st w)\<lparr>loading := False, apiConnected := True\<rparr>\<rparr>"
    and "fetchDashboardData_settle hostname (Response status (Some (Falsy f))) w =
           w\<lparr>st := (st w)\<lparr>loading := False, apiConnected := True\<rparr>\<rparr>"
  using assms
  by (simp_all add: fetchInventory_settle_def fetchCustomers_settle_def
        fetchDashboardData_settle_def apiCall_available setLoading_def dispatch_def)

text \<open>
  C4, as the code has it. A successful fetch sets the connectivity flag to true. When
  its body is truthy, the fetch of the inventory and that of the customers replace the
  collection of the store by the payload, and the fetch of the dashboard assigns the
  properties of the payload over the dashboard of the store: a property the payload
  lacks keeps its value. When its body is falsy (\<^verbatim>\<open>null\<close>, \<^verbatim>\<open>false\<close>, \<^verbatim>\<open>0\<close> or the empty
  string), the store keeps the value it had for that kind.
\<close>

theorem fetch_success_commits:
  assumes "currentApiBaseUrl hostname \<noteq> None" and "response_ok status"
  shows "fetchInventory hostname (Response status (Some (Payload items))) w =
           w\<lparr>st := (st w)\<lparr>inventory := items, loading := False, apiConnected := True\<rparr>\<rparr> \<and>
         fetchCustomers hostname (Response status (Some (Payload items))) w =
           w\<lparr>st := (st w)\<lparr>customers := items, loading := False, apiConnected := True\<rparr>\<rparr> \<and>
         fetchDashboardData hostname (Response status (Some (Payload d))) w =
           w\<lparr>st := (st w)\<lparr>dashboard := spread (dashboard (st w)) d, loading := False,
                 apiConnected := True\<rparr>\<rparr> \<and>
         fetchInventory hostname (Response status (Some (Falsy f))) w =
           w\<lparr>st := (st w)\<lparr>loading := False, apiConnected := True\<rparr>\<rparr> \<and>
         fetchCustomers hostname (Response status (Some (Falsy f))) w =
           w\<lparr>st := (st w)\<lparr>loading := False, apiConnected := True\<rparr>\<rparr> \<and>
         fetchDashboardData hostname (Response status (Some (Falsy f))) w =
           w\<lparr>st := (st w)\<lparr>loading := False, apiConnected := True\<rparr>\<rparr>"
  using assms
  by (simp add: fetchInventory_def fetchCustomers_def fetchDashboardData_def
        settle_available fetchInventory_issue_def fetchCustomers_issue_def
        fetchDashboardData_issue_def setLoading_def dispatch_def)

text \<open>
  On \<^verbatim>\<open>localhost\<close> with status 200: an inventory of one kettle replaces the seed
  inventory; a body \<^verbatim>\<open>null\<close> leaves the three seed items and sets the flag.
\<close>

theorem fetch_success_commits_witness:
  "currentApiBaseUrl ''localhost'' \<noteq> None \<and> response_ok 200 \<and>
   inventory (st (fetchInventory ''localhost''
      (Response 200 (Some (Payload [[(''id'', JNum 7), (''name'', JStr ''Kettle'')]])))
      (initialWorld ''localhost''))) = [[(''id'', JNum 7), (''name'', JStr ''Kettle'')]] \<and>
   apiConnected (st (fetchInventory ''localhost''
      (Response 200 (Some (Payload [[(''id'', JNum 7), (''name'', JStr ''Kettle'')]])))
      (initialWorld ''localhost''))) \<and>
   inventory (st (fetchInventory ''localhost'' (Response 200 (Some (Falsy FalsyNull)))
      (initialWorld ''localhost''))) = inventory (initialState ''localhost'') \<and>
   apiConnected (st (fetchInventory ''localhost'' (Response 200 (Some (Falsy FalsyNull)))
      (initialWorld ''localhost'')))"
proof -
  have a: "currentApiBaseUrl ''localhost'' \<noteq> None" by (simp add: currentApiBaseUrl_def)
  have b: "response_ok 200" by (simp add: response_ok_def)
  from a b fetch_success_commits [OF a b, of "[[(''id'', JNum 7), (''name'', JStr ''Kettle'')]]"
    "initialWorld ''localhost''" _ FalsyNull]
  show ?thesis by (simp add: initialWorld_def)
qed

text \<open>
  C4 as the specification words it does not hold for the dashboard: after a successful
  fetch whose payload is \<^verbatim>\<open>{ totalSales: 1 }\<close> the dashboard is not that payload, and its
  \<^verbatim>\<open>totalCustomers\<close> is still the 1250 of the seed data.
\<close>

theorem fetch_dashboard_merges:
  "dashboard (st (fetchDashboardData ''localhost''
      (Response 200 (Some (Payload [(''totalSales'', JNum 1)]))) (initialWorld ''localhost'')))
     \<noteq> [(''totalSales'', JNum 1)] \<and>
   get_prop (dashboard (st (fetchDashboardData ''localhost''
      (Response 200 (Some (Payload [(''totalSales'', JNum 1)]))) (initialWorld ''localhost''))))
      ''totalCustomers'' = JNum 1250"
  by (simp add: fetchDashboardData_def fetchDashboardData_settle_def
        fetchDashboardData_issue_def apiCall_def currentApiBaseUrl_def response_ok_def
        setLoading_def dispatch_def initialWorld_def initialState_def get_prop_def)

section \<open>Two reads in flight\<close>

text \<open>
  C5, as the code has it. Issuing a read records nothing but \<^verbatim>\<open>loading\<close>: there is no
  request token, and issuing twice leaves the same world as issuing once. A fetch A and
  then a fetch B of the same kind are issued, and the successful response of B settles
  before the successful response of A. Nothing is discarded for being late: each
  response is committed when it settles if its body is truthy. When the body of A is
  truthy, the inventory (the customers) of the store ends as the payload of A, whatever
  the body of B was, and the dashboard as the payload of B overlaid by the payload of
  A. When the body of A is falsy and that of B truthy, the store ends with what B
  committed.
\<close>

theorem late_response_overwrites:
  assumes "currentApiBaseUrl hostname \<noteq> None" and "response_ok sa" and "response_ok sb"
  shows "fetchInventory_issue (fetchInventory_issue w) = fetchInventory_issue w \<and>
         fetchInventory_issue w = w\<lparr>st := (st w)\<lparr>loading := True\<rparr>\<rparr> \<and>
         inventory (st (fetchInventory_settle hostname (Response sa (Some (Payload pa)))
            (fetchInventory_settle hostname (Response sb (Some bb))
               (fetchInventory_issue (fetchInventory_issue w))))) = pa \<and>
         customers (st (fetchCustomers_settle hostname (Response sa (Some (Payload pa)))
            (fetchCustomers_settle hostname (Response sb (Some bb))
               (fetchCustomers_issue (fetchCustomers_issue w))))) = pa \<and>
         dashboard (st (fetchDashboardData_settle hostname (Response sa (Some (Payload da)))
            (fetchDashboardData_settle hostname (Response sb (Some (Payload db)))
               (fetchDashboardData_issue (fetchDashboardData_issue w)))))
           = spread (spread (dashboard (st w)) db) da \<and>
         inventory (st (fetchInventory_settle hostname (Response sa (Some (Falsy f)))
            (fetchInventory_settle hostname (Response sb (Some (Payload pb)))
               (fetchInventory_issue (fetchInventory_issue w))))) = pb \<and>
         customers (st (fetchCustomers_settle hostname (Response sa (Some (Falsy f)))
            (fetchCustomers_settle hostname (Response sb (Some (Payload pb)))
               (fetchCustomers_issue (fetchCustomers_issue w))))) = pb \<and>
         dashboard (st (fetchDashboardData_settle hostname (Response sa (Some (Falsy f)))
            (fetchDashboardData_settle hostname (Response sb (Some (Payload db)))
               (fetchDashboardData_issue (fetchDashboardData_issue w)))))
           = spread (dashboard (st w)) db"
  using assms
  by (simp add: settle_available fetchInventory_issue_def fetchCustomers_issue_def
        fetchDashboardData_issue_def setLoading_def dispatch_def)

text \<open>
  Fetch A answers 200 with an empty inventory, fetch B answers 201 with one item and
  settles first: the inventory ends empty.
\<close>

theorem late_response_overwrites_witness:
  "currentApiBaseUrl ''localhost'' \<noteq> None \<and> response_ok 200 \<and> response_ok 201 \<and>
   inventory (st (fetchInventory_settle ''localhost'' (Response 200 (Some (Payload [])))
      (fetchInventory_settle ''localhost'' (Response 201 (Some (Payload [[(''id'', JNum 9)]])))
         (fetchInventory_issue (fetchInventory_issue (initialWorld ''localhost'')))))) = []"
proof -
  have a: "currentApiBaseUrl ''localhost'' \<noteq> None" by (simp add: currentApiBaseUrl_def)
  have b: "response_ok 200" by (simp add: response_ok_def)
  have c: "response_ok 201" by (simp add: response_ok_def)
  from a b c late_response_overwrites [OF a b c, of "initialWorld ''localhost''" "[]"
    "Payload [[(''id'', JNum 9)]]"]
  show ?thesis by blast
qed

text \<open>
  C5 as the specification words it does not hold. Fetch A is answered with stock 25,
  fetch B, issued after it, with stock 24; the response of B settles first. The store
  ends with the payload of A, not with that of B.
\<close>

theorem late_response_not_discarded:
  "inventory (st (fetchInventory_settle ''localhost''
      (Response 200 (Some (Payload [[(''id'', JNum 1), (''stock'', JNum 25)]])))
      (fetchInventory_settle ''localhost''
         (Response 200 (Some (Payload [[(''id'', JNum 1), (''stock'', JNum 24)]])))
         (fetchInventory_issue (fetchInventory_issue (initialWorld ''localhost''))))))
     = [[(''id'', JNum 1), (''stock'', JNum 25)]] \<and>
   inventory (st (fetchInventory_settle ''localhost''
      (Response 200 (Some (Payload [[(''id'', JNum 1), (''stock'', JNum 25)]])))
      (fetchInventory_settle ''localhost''
         (Response 200 (Some (Payload [[(''id'', JNum 1), (''stock'', JNum 24)]])))
         (fetchInventory_issue (fetchInventory_issue (initialWorld ''localhost''))))))
     \<noteq> [[(''id'', JNum 1), (''stock'', JNum 24)]]"
  by (simp add: fetchInventory_settle_def fetchInventory_issue_def apiCall_def
        currentApiBaseUrl_def response_ok_def setLoading_def dispatch_def)

section \<open>Writes whose gateway call fails\<close>

text \<open>
  C3, at a failing input. The provider is mounted on \<^verbatim>\<open>localhost\<close> and its initial load
  succeeds, so the flag is true and the inventory has the ids 1, 2 and 3. Then
  \<^verbatim>\<open>deleteInventoryItem(1)\<close> is called, through the \<^verbatim>\<open>actions\<close> of the render of that
  state, and its request is rejected by the network: item 1 is removed from the store
  all the same, and the one toast shown is the success toast. A rejected
  \<^verbatim>\<open>addInventoryItem\<close> in the same world shows no toast and sets no error.
\<close>

theorem failed_delete_commits:
  "apiConnected (st (loadInitialData ''localhost'' (Response 200 (Some (Payload [])))
      (initialWorld ''localhost''))) \<and>
   map (\<lambda>item. get_prop item ''id'')
     (inventory (st (loadInitialData ''localhost'' (Response 200 (Some (Payload [])))
        (initialWorld ''localhost'')))) = [JNum 1, JNum 2, JNum 3] \<and>
   map (\<lambda>item. get_prop item ''id'')
     (inventory (st (deleteInventoryItem
        (st (loadInitialData ''localhost'' (Response 200 (Some (Payload [])))
           (initialWorld ''localhost'')))
        ''localhost'' NetworkFailure (JNum 1)
        (loadInitialData ''localhost'' (Response 200 (Some (Payload [])))
           (initialWorld ''localhost''))))) = [JNum 2, JNum 3] \<and>
   toasts (deleteInventoryItem
      (st (loadInitialData ''localhost'' (Response 200 (Some (Payload [])))
         (initialWorld ''localhost'')))
      ''localhost'' NetworkFailure (JNum 1)
      (loadInitialData ''localhost'' (Response 200 (Some (Payload [])))
         (initialWorld ''localhost''))) = [ToastSuccess ''Inventory item deleted successfully''] \<and>
   toasts (addInventoryItem
      (st (loadInitialData ''localhost'' (Response 200 (Some (Payload [])))
         (initialWorld ''localhost'')))
      ''localhost'' NetworkFailure [(''name'', JStr ''Kettle'')]
      (loadInitialData ''localhost'' (Response 200 (Some (Payload [])))
         (initialWorld ''localhost''))) = [] \<and>
   error (st (addInventoryItem
      (st (loadInitialData ''localhost'' (Response 200 (Some (Payload [])))
         (initialWorld ''localhost'')))
      ''localhost'' NetworkFailure [(''name'', JStr ''Kettle'')]
      (loadInitialData ''localhost'' (Response 200 (Some (Payload [])))
         (initialWorld ''localhost'')))) = None"
  by (simp add: loadInitialData_def deleteInventoryItem_def addInventoryItem_def apiCall_def
        currentApiBaseUrl_def response_ok_def dispatch_def toast_success_def
        initialWorld_def initialState_def get_prop_def)

section \<open>No validation at the store\<close>



section \<open>Stock status\<close>

text \<open>
  C8, as the code has it. The status of an inventory item is a function of its stock and
  minStock alone, and its labels are \<^verbatim>\<open>low\<close>, \<^verbatim>\<open>medium\<close> and \<^verbatim>\<open>high\<close>: stock 2 with
  minStock 5 is \<^verbatim>\<open>low\<close>, stock 8 with minStock 5 is \<^verbatim>\<open>medium\<close>, and the boundary
  stock = minStock is \<^verbatim>\<open>low\<close>.
\<close>

theorem getStockStatus_labels:
  "getStockStatus 2 5 = ''low'' \<and> getStockStatus 8 5 = ''medium'' \<and>
   getStockStatus m m = ''low'' \<and>
   getStockStatus s m \<in> {''low'', ''medium'', ''high''}"
  by (simp add: getStockStatus_def)

text \<open>
  C8 as the specification words it does not hold: stock 2 with minStock 5 is not
  \<^verbatim>\<open>critical\<close>, and stock 8 with minStock 5 is not \<^verbatim>\<open>in-stock\<close>.
\<close>

theorem getStockStatus_not_critical:
  "getStockStatus 2 5 \<noteq> ''critical'' \<and> getStockStatus 8 5 \<noteq> ''in-stock''"
  by (simp add: getStockStatus_def)

section \<open>Updates and removals of an absent id\<close>

lemma map_unmatched: "\<forall>x \<in> set xs. \<not> P x \<Longrightarrow> map (\<lambda>x. if P x then f x else x) xs = xs"
  by (induction xs) auto

lemma filter_unmatched: "\<forall>x \<in> set xs. \<not> P x \<Longrightarrow> filter (\<lambda>x. \<not> P x) xs = xs"
  by (induction xs) auto

text \<open>
  C10. When no item of the targeted collection has the id of the action (for an update,
  the \<^verbatim>\<open>id\<close> of the payload; for a removal, the payload itself), the reducer returns a
  state equal to the one it was given, for \<^verbatim>\<open>UPDATE_INVENTORY_ITEM\<close>,
  \<^verbatim>\<open>DELETE_INVENTORY_ITEM\<close>, \<^verbatim>\<open>UPDATE_CUSTOMER\<close> and \<^verbatim>\<open>DELETE_CUSTOMER\<close>. The reducer is
  a total function: it raises nothing.
\<close>

theorem reducer_absent_id_noop:
  "((\<forall>item \<in> set (inventory s). \<not> strict_eq (get_prop item ''id'') (get_prop p ''id''))
      \<longrightarrow> appReducer s (UPDATE_INVENTORY_ITEM p) = s) \<and>
   ((\<forall>item \<in> set (inventory s). \<not> strict_eq (get_prop item ''id'') i)
      \<longrightarrow> appReducer s (DELETE_INVENTORY_ITEM i) = s) \<and>
   ((\<forall>customer \<in> set (customers s). \<not> strict_eq (get_prop customer ''id'') (get_prop p ''id''))
      \<longrightarrow> appReducer s (UPDATE_CUSTOMER p) = s) \<and>
   ((\<forall>customer \<in> set (customers s). \<not> strict_eq (get_prop customer ''id'') i)
      \<longrightarrow> appReducer s (DELETE_CUSTOMER i) = s)"
  by (simp add: map_unmatched filter_unmatched)

text \<open>
  The seed data has the ids 1, 2 and 3: an update for id 99, a removal of id 99, an
  update whose id is the string \<^verbatim>\<open>"1"\<close> and a removal of \<^verbatim>\<open>undefined\<close> change nothing.
\<close>

theorem reducer_absent_id_noop_witness:
  "appReducer (initialState ''localhost'')
     (UPDATE_INVENTORY_ITEM [(''id'', JNum 99), (''stock'', JNum 0)])
     = initialState ''localhost'' \<and>
   appReducer (initialState ''localhost'') (DELETE_INVENTORY_ITEM (JNum 99))
     = initialState ''localhost'' \<and>
   appReducer (initialState ''localhost'')
     (UPDATE_CUSTOMER [(''id'', JStr ''1''), (''name'', JStr ''X'')])
     = initialState ''localhost'' \<and>
   appReducer (initialState ''localhost'') (DELETE_CUSTOMER JUndef) = initialState ''localhost''"
proof -
  let ?s = "initialState ''localhost''"
  have a: "\<forall>item \<in> set (inventory ?s).
             \<not> strict_eq (get_prop item ''id'')
                 (get_prop [(''id'', JNum 99), (''stock'', JNum 0)] ''id'')"
    by (simp add: initialState_def get_prop_def)
  have b: "\<forall>item \<in> set (inventory ?s). \<not> strict_eq (get_prop item ''id'') (JNum 99)"
    by (simp add: initialState_def get_prop_def)
  have c: "\<forall>customer \<in> set (customers ?s).
             \<not> strict_eq (get_prop customer ''id'')
                 (get_prop [(''id'', JStr ''1''), (''name'', JStr ''X'')] ''id'')"
    by (simp add: initialState_def get_prop_def)
  have d: "\<forall>customer \<in> set (customers ?s). \<not> strict_eq (get_prop customer ''id'') JUndef"
    by (simp add: initialState_def get_prop_def)
  from a b c d
    reducer_absent_id_noop [of ?s "[(''id'', JNum 99), (''stock'', JNum 0)]" "JNum 99"]
    reducer_absent_id_noop [of ?s "[(''id'', JStr ''1''), (''name'', JStr ''X'')]" JUndef]
  show ?thesis by blast
qed

end
